theory Spec2Isabelle
  imports Main "HOL-Library.Word"
begin

unbundle bit_operations_syntax

section \<open>Data model of \<open>bitarchivecreator.cpp\<close>\<close>

text \<open>
  \<open>BitCompressionMethod\<close> is an \<open>enum class\<close> declared in a header. The source names
  seven enumerators; both \<open>switch\<close> statements over it have a \<open>default\<close> branch, which
  is what any other value of the enumeration's underlying type takes. \<open>OtherMethod\<close>
  stands for those values.
\<close>

datatype BitCompressionMethod =
  Copy | Ppmd | Lzma | Lzma2 | BZip2 | Deflate | Deflate64 | OtherMethod nat

text \<open>
  The format constants \<open>BitFormat::SevenZip\<close>, ... that the source compares a format
  with. \<open>operator==\<close> on formats compares their identifying value; \<open>OtherFormat\<close> is
  any format that is none of the seven the source names.
\<close>

datatype FormatValue =
  Fmt_SevenZip | Fmt_Zip | Fmt_Tar | Fmt_Wim | Fmt_Xz | Fmt_BZip2 | Fmt_GZip | OtherFormat nat

text \<open>The feature flags the source queries with \<open>hasFeature\<close>.\<close>

datatype FormatFeatures =
  MULTIPLE_FILES | SOLID_ARCHIVE | COMPRESSION_LEVEL | HEADER_ENCRYPTION | MULTIPLE_METHODS

text \<open>
  A \<open>BitInOutFormat\<close>: the class is declared outside this file, so a format is taken
  as a parameter with exactly what the source reads from it: its identifying value
  (for \<open>==\<close>), its feature set (for \<open>hasFeature\<close>) and its default method
  (for \<open>defaultMethod()\<close>).
\<close>

record BitInOutFormat =
  mValue :: FormatValue
  mFeatures :: "FormatFeatures set"
  mDefaultMethod :: BitCompressionMethod

definition hasFeature :: "BitInOutFormat \<Rightarrow> FormatFeatures \<Rightarrow> bool" where
  "hasFeature format feature = (feature \<in> mFeatures format)"

definition defaultMethod :: "BitInOutFormat \<Rightarrow> BitCompressionMethod" where
  "defaultMethod format = mDefaultMethod format"

text \<open>Every \<open>throw BitException( msg )\<close> of the source is a value \<open>BitException msg\<close>.\<close>

datatype BitException = BitException string

section \<open>The validators\<close>

fun isValidCompressionMethod :: "BitInOutFormat \<Rightarrow> BitCompressionMethod \<Rightarrow> bool" where
  "isValidCompressionMethod format Copy =
     (mValue format = Fmt_SevenZip \<or> mValue format = Fmt_Zip \<or> mValue format = Fmt_Tar \<or>
      mValue format = Fmt_Wim)"
| "isValidCompressionMethod format Ppmd =
     (mValue format = Fmt_SevenZip \<or> mValue format = Fmt_Zip)"
| "isValidCompressionMethod format Lzma =
     (mValue format = Fmt_SevenZip \<or> mValue format = Fmt_Zip)"
| "isValidCompressionMethod format Lzma2 =
     (mValue format = Fmt_SevenZip \<or> mValue format = Fmt_Xz)"
| "isValidCompressionMethod format BZip2 =
     (mValue format = Fmt_SevenZip \<or> mValue format = Fmt_BZip2 \<or> mValue format = Fmt_Zip)"
| "isValidCompressionMethod format Deflate =
     (mValue format = Fmt_GZip \<or> mValue format = Fmt_Zip)"
| "isValidCompressionMethod format Deflate64 = (mValue format = Fmt_Zip)"
| "isValidCompressionMethod format (OtherMethod v) = True"

text \<open>
  \<open>dictionary_size\<close> is a \<open>uint32_t\<close>. The bounds are written as the source computes
  them: \<open>1536 * ( 1 << 20 )\<close> is \<open>int\<close> arithmetic that stays below \<open>2^31\<close>, so its
  conversion to \<open>uint32_t\<close> for the comparison keeps the value.
\<close>

fun isValidDictionarySize :: "BitCompressionMethod \<Rightarrow> 32 word \<Rightarrow> bool" where
  "isValidDictionarySize Lzma dictionary_size = (dictionary_size \<le> 1536 * push_bit 20 1)"
| "isValidDictionarySize Lzma2 dictionary_size = (dictionary_size \<le> 1536 * push_bit 20 1)"
| "isValidDictionarySize Ppmd dictionary_size = (dictionary_size \<le> push_bit 30 1)"
| "isValidDictionarySize BZip2 dictionary_size = (dictionary_size \<le> 900 * push_bit 10 1)"
| "isValidDictionarySize Deflate64 dictionary_size = (dictionary_size = push_bit 16 1)"
| "isValidDictionarySize Deflate dictionary_size = (dictionary_size = push_bit 15 1)"
| "isValidDictionarySize Copy dictionary_size = True"
| "isValidDictionarySize (OtherMethod v) dictionary_size = True"

fun methodName :: "BitCompressionMethod \<Rightarrow> string" where
  "methodName Copy = ''Copy''"
| "methodName Ppmd = ''PPMd''"
| "methodName Lzma = ''LZMA''"
| "methodName Lzma2 = ''LZMA2''"
| "methodName BZip2 = ''BZip2''"
| "methodName Deflate = ''Deflate''"
| "methodName Deflate64 = ''Deflate64''"
| "methodName (OtherMethod v) = ''''"

section \<open>The settings object and its setters\<close>

text \<open>
  The fields of \<open>BitArchiveCreator\<close>. \<open>mPassword\<close> is the member of the base class
  \<open>BitArchiveHandler\<close> that \<open>setPassword\<close> assigns. \<open>BitCompressionLevel\<close> is an
  \<open>enum class\<close> declared in a header; the only thing the source does with a level is
  \<open>static_cast< uint32_t >\<close>, so a level is held as that value.
\<close>

record BitArchiveCreator =
  mPassword :: string
  mFormat :: BitInOutFormat
  mCompressionLevel :: "32 word"
  mCompressionMethod :: BitCompressionMethod
  mDictionarySize :: "32 word"
  mCryptHeaders :: bool
  mSolidMode :: bool
  mUpdateMode :: bool
  mVolumeSize :: "64 word"

text \<open>
  The constructor. Two things it uses are declared outside this file and are
  parameters here: the password the base-class constructor leaves (\<open>password0\<close>) and
  the value of the enumerator \<open>BitCompressionLevel::NORMAL\<close>.
\<close>

definition BitArchiveCreator_ctor ::
  "string \<Rightarrow> 32 word \<Rightarrow> BitInOutFormat \<Rightarrow> BitArchiveCreator" where
  "BitArchiveCreator_ctor password0 NORMAL format =
     \<lparr>mPassword = password0,
      mFormat = format,
      mCompressionLevel = NORMAL,
      mCompressionMethod = defaultMethod format,
      mDictionarySize = 0,
      mCryptHeaders = False,
      mSolidMode = False,
      mUpdateMode = False,
      mVolumeSize = 0\<rparr>"

text \<open>\<open>setPassword( password, crypt_headers )\<close>\<close>

definition setPassword2 :: "string \<Rightarrow> bool \<Rightarrow> BitArchiveCreator \<Rightarrow> BitArchiveCreator" where
  "setPassword2 password crypt_headers s =
     s\<lparr>mPassword := password, mCryptHeaders := (length password > 0) \<and> crypt_headers\<rparr>"

text \<open>\<open>setPassword( password )\<close>\<close>

definition setPassword :: "string \<Rightarrow> BitArchiveCreator \<Rightarrow> BitArchiveCreator" where
  "setPassword password s = setPassword2 password (mCryptHeaders s) s"

definition setCompressionLevel :: "32 word \<Rightarrow> BitArchiveCreator \<Rightarrow> BitArchiveCreator" where
  "setCompressionLevel compression_level s =
     s\<lparr>mCompressionLevel := compression_level, mDictionarySize := 0\<rparr>"

text \<open>
  A setter that may throw returns the exception, if one was thrown, together with the
  object as the call leaves it: the caller that catches the exception goes on with
  that object.
\<close>

definition setCompressionMethod ::
  "BitCompressionMethod \<Rightarrow> BitArchiveCreator \<Rightarrow> BitException option \<times> BitArchiveCreator" where
  "setCompressionMethod compression_method s =
     (if \<not> isValidCompressionMethod (mFormat s) compression_method
      then (Some (BitException ''Invalid compression method for the chosen archive format''), s)
      else if hasFeature (mFormat s) MULTIPLE_METHODS
      then (None, s\<lparr>mCompressionMethod := compression_method, mDictionarySize := 0\<rparr>)
      else (None, s))"

definition setDictionarySize ::
  "32 word \<Rightarrow> BitArchiveCreator \<Rightarrow> BitException option \<times> BitArchiveCreator" where
  "setDictionarySize dictionary_size s =
     (if \<not> isValidDictionarySize (mCompressionMethod s) dictionary_size
      then (Some (BitException ''Invalid dictionary size for the chosen compression method''), s)
      else if mCompressionMethod s \<noteq> Copy \<and> mCompressionMethod s \<noteq> Deflate \<and>
              mCompressionMethod s \<noteq> Deflate64
      then (None, s\<lparr>mDictionarySize := dictionary_size\<rparr>)
      else (None, s))"

definition setSolidMode :: "bool \<Rightarrow> BitArchiveCreator \<Rightarrow> BitArchiveCreator" where
  "setSolidMode solid_mode s = s\<lparr>mSolidMode := solid_mode\<rparr>"

definition setUpdateMode :: "bool \<Rightarrow> BitArchiveCreator \<Rightarrow> BitArchiveCreator" where
  "setUpdateMode update_mode s = s\<lparr>mUpdateMode := update_mode\<rparr>"

definition setVolumeSize :: "64 word \<Rightarrow> BitArchiveCreator \<Rightarrow> BitArchiveCreator" where
  "setVolumeSize size_arg s = s\<lparr>mVolumeSize := size_arg\<rparr>"

text \<open>
  The life of a settings object: constructed once, then any sequence of calls of the
  mutating member functions of this file. A call that throws leaves the object as
  the setter left it, and the sequence goes on.
\<close>

datatype call =
  SetPassword string
| SetPassword2 string bool
| SetCompressionLevel "32 word"
| SetCompressionMethod BitCompressionMethod
| SetDictionarySize "32 word"
| SetSolidMode bool
| SetUpdateMode bool
| SetVolumeSize "64 word"

fun call_step :: "call \<Rightarrow> BitArchiveCreator \<Rightarrow> BitArchiveCreator" where
  "call_step (SetPassword p) s = setPassword p s"
| "call_step (SetPassword2 p h) s = setPassword2 p h s"
| "call_step (SetCompressionLevel l) s = setCompressionLevel l s"
| "call_step (SetCompressionMethod m) s = snd (setCompressionMethod m s)"
| "call_step (SetDictionarySize d) s = snd (setDictionarySize d s)"
| "call_step (SetSolidMode b) s = setSolidMode b s"
| "call_step (SetUpdateMode b) s = setUpdateMode b s"
| "call_step (SetVolumeSize v) s = setVolumeSize v s"

fun run :: "BitArchiveCreator \<Rightarrow> call list \<Rightarrow> BitArchiveCreator" where
  "run s [] = s"
| "run s (c # cs) = run (call_step c s) cs"

section \<open>The property bag\<close>

text \<open>
  A \<open>BitPropVariant\<close> as the source builds them: from a \<open>bool\<close>, from a \<open>uint32_t\<close>
  and from a wide string.
\<close>

datatype BitPropVariant = PropBool bool | PropUInt32 "32 word" | PropString string

text \<open>\<open>std::to_wstring\<close> on an unsigned value: its decimal digits.\<close>

fun to_wstring :: "nat \<Rightarrow> string" where
  "to_wstring n =
     (if n < 10 then [''0123456789'' ! n]
      else to_wstring (n div 10) @ [''0123456789'' ! (n mod 10)])"

declare to_wstring.simps [simp del]

text \<open>
  The two vectors \<open>names\<close> and \<open>values\<close> that \<open>setArchiveProperties\<close> fills, each step
  of the source being one \<open>let\<close>: \<open>push_back\<close> and \<open>emplace_back\<close> append at the end.
\<close>

definition archiveProperties :: "BitArchiveCreator \<Rightarrow> string list \<times> BitPropVariant list" where
  "archiveProperties s =
     (let names = [];
          values = [];
          (names, values) =
            (if mCryptHeaders s \<and> hasFeature (mFormat s) HEADER_ENCRYPTION
             then (names @ [''he''], values @ [PropBool True])
             else (names, values));
          (names, values) =
            (if hasFeature (mFormat s) COMPRESSION_LEVEL
             then
               (let names = names @ [''x''];
                    values = values @ [PropUInt32 (mCompressionLevel s)]
                in if hasFeature (mFormat s) MULTIPLE_METHODS \<and>
                      mCompressionMethod s \<noteq> defaultMethod (mFormat s)
                   then (names @ [if mValue (mFormat s) = Fmt_SevenZip then ''0'' else ''m''],
                         values @ [PropString (methodName (mCompressionMethod s))])
                   else (names, values))
             else (names, values));
          (names, values) =
            (if hasFeature (mFormat s) SOLID_ARCHIVE
             then (names @ [''s''], values @ [PropBool (mSolidMode s)])
             else (names, values));
          (names, values) =
            (if mDictionarySize s \<noteq> 0
             then
               (let prop_name =
                      (if mValue (mFormat s) = Fmt_SevenZip
                       then (if mCompressionMethod s = Ppmd then ''0mem'' else ''0d'')
                       else (if mCompressionMethod s = Ppmd then ''mem'' else ''d''))
                in (names @ [prop_name],
                    values @ [PropString (to_wstring (unat (mDictionarySize s)) @ ''b'')]))
             else (names, values))
      in (names, values))"

section \<open>The engine, the file system and the commit\<close>

text \<open>
  Result codes and the error code the source compares with, as the platform headers
  define them.
\<close>

type_synonym HRESULT = "32 word"

definition S_OK :: HRESULT where "S_OK = 0"
definition E_NOTIMPL :: HRESULT where "E_NOTIMPL = 0x80004001"
definition E_FAIL :: HRESULT where "E_FAIL = 0x80004005"
definition ERROR_FILE_EXISTS :: "32 word" where "ERROR_FILE_EXISTS = 80"

text \<open>
  The handles the source passes around: the archive object of the engine (fresh, or
  made updatable from the archive already at a path), the output stream (a
  multi-volume stream, a file stream on the path it created, a memory stream), and
  the callback with what the source reads from it.
\<close>

datatype IOutArchive = NewArchive FormatValue | UpdatableArchive string

datatype OutStream =
  COutMultiVolStream "64 word" string
| COutFileStream string
| COutMemStream

record CompressCallback =
  itemsCount :: "32 word"
  getErrorMessage :: string

text \<open>
  What the external collaborators answer. None of them is code of this file, so each
  is a parameter:
  \<^item> \<open>env_createArchiveObject\<close>: whether \<open>createArchiveObject\<close> of the library throws;
  \<^item> \<open>env_QueryInterface\<close>: the result of \<open>QueryInterface( IID_ISetProperties )\<close>;
  \<^item> \<open>env_SetProperties\<close>: the result of \<open>SetProperties\<close> on the names and values;
  \<^item> \<open>env_Create\<close>: \<open>COutFileStream::Create( path, false )\<close>; \<open>None\<close> when the file was
    created, \<open>Some e\<close> when it was not and \<open>GetLastError()\<close> is \<open>e\<close>;
  \<^item> \<open>env_openOldArc\<close>: whether opening the existing archive and
    \<open>initUpdatableArchive\<close> throw;
  \<^item> \<open>env_UpdateItems\<close>: the result code of \<open>UpdateItems\<close> and the callback as the
    engine leaves it;
  \<^item> \<open>env_renameFile\<close>: the result of \<open>fsutil::renameFile\<close>.
\<close>

record Env =
  env_createArchiveObject :: "FormatValue \<Rightarrow> BitException option"
  env_QueryInterface :: HRESULT
  env_SetProperties :: "string list \<Rightarrow> BitPropVariant list \<Rightarrow> HRESULT"
  env_Create :: "string \<Rightarrow> 32 word option"
  env_openOldArc :: "string \<Rightarrow> BitException option"
  env_UpdateItems :: "IOutArchive \<Rightarrow> OutStream \<Rightarrow> 32 word \<Rightarrow> CompressCallback \<Rightarrow> HRESULT \<times> CompressCallback"
  env_renameFile :: "string \<Rightarrow> string \<Rightarrow> bool"

text \<open>The calls on the collaborators, in the order they are made.\<close>

datatype event =
  CreateArchiveObject FormatValue
| QueryISetProperties
| SetPropertiesCall "string list" "BitPropVariant list"
| CreateFileCall string
| OpenOldArc string
| UpdateItemsCall IOutArchive OutStream "32 word"
| CloseOldArc
| CloseOutStream
| RenameFileCall string string

text \<open>
  A member function that talks to the collaborators returns its result or the
  exception it threw, and the calls it made. \<open>then_do\<close> is sequencing: an exception
  ends the sequence, the calls made so far are kept.
\<close>

type_synonym 'a io = "(BitException + 'a) \<times> event list"

definition then_do :: "'a io \<Rightarrow> ('a \<Rightarrow> 'b io) \<Rightarrow> 'b io" where
  "then_do r f =
     (case r of
        (Inl e, t) \<Rightarrow> (Inl e, t)
      | (Inr a, t) \<Rightarrow> (case f a of (r', t') \<Rightarrow> (r', t @ t')))"

definition quoted :: "string \<Rightarrow> string" where
  "quoted path = [CHR 0x27] @ path @ [CHR 0x27]"

definition setArchiveProperties :: "Env \<Rightarrow> BitArchiveCreator \<Rightarrow> unit io" where
  "setArchiveProperties env s =
     (case archiveProperties s of (names, values) \<Rightarrow>
        if names \<noteq> [] then
          if env_QueryInterface env \<noteq> S_OK
          then (Inl (BitException ''ISetProperties unsupported''), [QueryISetProperties])
          else if env_SetProperties env names values \<noteq> S_OK
          then (Inl (BitException ''Cannot set properties of the archive''),
                [QueryISetProperties, SetPropertiesCall names values])
          else (Inr (), [QueryISetProperties, SetPropertiesCall names values])
        else (Inr (), []))"

definition initOutArchive :: "Env \<Rightarrow> BitArchiveCreator \<Rightarrow> IOutArchive io" where
  "initOutArchive env s =
     then_do
       (case env_createArchiveObject env (mValue (mFormat s)) of
          Some e \<Rightarrow> (Inl e, [CreateArchiveObject (mValue (mFormat s))])
        | None \<Rightarrow> (Inr (NewArchive (mValue (mFormat s))),
                    [CreateArchiveObject (mValue (mFormat s))]))
       (\<lambda>new_arc. then_do (setArchiveProperties env s) (\<lambda>_. (Inr new_arc, [])))"

text \<open>
  \<open>initOutFileStream\<close> returns the stream and, through its reference parameters, the
  archive object (replaced by the updatable one when updating) and the old archive
  (\<open>None\<close> for the null pointer).
\<close>

definition initOutFileStream ::
  "Env \<Rightarrow> BitArchiveCreator \<Rightarrow> string \<Rightarrow> IOutArchive \<Rightarrow>
   (OutStream \<times> IOutArchive \<times> string option) io" where
  "initOutFileStream env s out_archive new_arc =
     (if mVolumeSize s > 0
      then (Inr (COutMultiVolStream (mVolumeSize s) out_archive, new_arc, None), [])
      else
        (case env_Create env out_archive of
           None \<Rightarrow> (Inr (COutFileStream out_archive, new_arc, None), [CreateFileCall out_archive])
         | Some last_error \<Rightarrow>
             if last_error \<noteq> ERROR_FILE_EXISTS
             then (Inl (BitException (''Cannot create output archive file '' @ quoted out_archive)),
                   [CreateFileCall out_archive])
             else if \<not> mUpdateMode s
             then (Inl (BitException (''Cannot update existing archive file '' @ quoted out_archive)),
                   [CreateFileCall out_archive])
             else if \<not> hasFeature (mFormat s) MULTIPLE_FILES
             then (Inl (BitException ''Format does not support updating existing archive files''),
                   [CreateFileCall out_archive])
             else
               (case env_Create env (out_archive @ ''.tmp'') of
                  Some e \<Rightarrow>
                    (Inl (BitException
                       (''Cannot create temp archive file for updating '' @ quoted out_archive)),
                     [CreateFileCall out_archive, CreateFileCall (out_archive @ ''.tmp'')])
                | None \<Rightarrow>
                    then_do (Inr (), [CreateFileCall out_archive,
                                      CreateFileCall (out_archive @ ''.tmp'')])
                      (\<lambda>_. then_do
                         (case env_openOldArc env out_archive of
                            Some e \<Rightarrow> (Inl e, [OpenOldArc out_archive])
                          | None \<Rightarrow> (Inr (), [OpenOldArc out_archive]))
                         (\<lambda>_. then_do (setArchiveProperties env s)
                            (\<lambda>_. (Inr (COutFileStream (out_archive @ ''.tmp''),
                                        UpdatableArchive out_archive,
                                        Some out_archive), [])))))))"

definition initOutMemStream :: OutStream where
  "initOutMemStream = COutMemStream"

text \<open>
  The engine works on the callback object; \<open>getErrorMessage()\<close> after the call reads
  the callback as the engine left it (\<open>callback_after\<close>).
\<close>

definition compressOut ::
  "Env \<Rightarrow> IOutArchive \<Rightarrow> OutStream \<Rightarrow> CompressCallback \<Rightarrow> HRESULT io" where
  "compressOut env out_arc out_stream update_callback =
     (case env_UpdateItems env out_arc out_stream (itemsCount update_callback) update_callback of
        (result, callback_after) \<Rightarrow>
          (if result = E_NOTIMPL
           then Inl (BitException ''Unsupported operation!'')
           else if result = E_FAIL \<and> getErrorMessage callback_after = []
           then Inl (BitException ''Failed operation (unkwown error)!'')
           else if result \<noteq> S_OK
           then Inl (BitException (getErrorMessage callback_after))
           else Inr result,
           [UpdateItemsCall out_arc out_stream (itemsCount update_callback)]))"

definition cleanupOldArc :: "Env \<Rightarrow> string option \<Rightarrow> OutStream \<Rightarrow> string \<Rightarrow> unit io" where
  "cleanupOldArc env old_arc out_stream out_archive =
     (case old_arc of
        None \<Rightarrow> (Inr (), [])
      | Some a \<Rightarrow>
          (if env_renameFile env (out_archive @ ''.tmp'') out_archive
           then Inr ()
           else Inl (BitException (''Cannot rename temp archive file to  '' @ quoted out_archive)),
           [CloseOldArc] @
           (case out_stream of COutFileStream f \<Rightarrow> [CloseOutStream] | _ \<Rightarrow> []) @
           [RenameFileCall (out_archive @ ''.tmp'') out_archive]))"

text \<open>
  Modelled from the spec: the function that runs a commit is not in this file (the
  file has the four steps it is made of). The specification's commit pipeline is:
  validate that the settings are consistent (the method valid for the format, a
  non-default dictionary size within the method's bounds); acquire the archive object
  with the property bag applied, and the output target; invoke the engine's
  compress/update operation; interpret its result code; finalize. A failure of a step
  ends the commit. The specification names no message for a failed validation; the
  setters' messages are used.
\<close>

definition settings_consistent :: "BitArchiveCreator \<Rightarrow> unit io" where
  "settings_consistent s =
     (if \<not> isValidCompressionMethod (mFormat s) (mCompressionMethod s)
      then (Inl (BitException ''Invalid compression method for the chosen archive format''), [])
      else if mDictionarySize s \<noteq> 0 \<and>
              \<not> isValidDictionarySize (mCompressionMethod s) (mDictionarySize s)
      then (Inl (BitException ''Invalid dictionary size for the chosen compression method''), [])
      else (Inr (), []))"

definition commit ::
  "Env \<Rightarrow> BitArchiveCreator \<Rightarrow> string \<Rightarrow> CompressCallback \<Rightarrow> HRESULT io" where
  "commit env s out_archive update_callback =
     then_do (settings_consistent s)
       (\<lambda>_. then_do (initOutArchive env s)
          (\<lambda>new_arc. then_do (initOutFileStream env s out_archive new_arc)
             (\<lambda>(out_stream, new_arc, old_arc).
                then_do (compressOut env new_arc out_stream update_callback)
                  (\<lambda>result. then_do (cleanupOldArc env old_arc out_stream out_archive)
                     (\<lambda>_. (Inr result, []))))))"

text \<open>Whether a call is the engine's compress/update operation.\<close>

fun is_UpdateItemsCall :: "event \<Rightarrow> bool" where
  "is_UpdateItemsCall (UpdateItemsCall out_arc out_stream n) = True"
| "is_UpdateItemsCall e = False"

section \<open>Concrete inputs\<close>

text \<open>
  Inputs for the closed theorems below. The format constants are declared outside
  this file; these two formats are examples of a format with every feature and
  several methods, and of a format with a single fixed method.
\<close>

definition example_7z :: BitInOutFormat where
  "example_7z =
     \<lparr>mValue = Fmt_SevenZip,
      mFeatures = {MULTIPLE_FILES, SOLID_ARCHIVE, COMPRESSION_LEVEL, HEADER_ENCRYPTION,
                   MULTIPLE_METHODS},
      mDefaultMethod = Lzma\<rparr>"

definition example_gzip :: BitInOutFormat where
  "example_gzip =
     \<lparr>mValue = Fmt_GZip, mFeatures = {COMPRESSION_LEVEL}, mDefaultMethod = Deflate\<rparr>"

text \<open>
  An environment in which the file \<open>a.7z\<close> already exists and every other file can be
  created, the engine accepts the properties, and \<open>UpdateItems\<close> answers with the
  result code \<open>hr\<close> and leaves the message \<open>msg\<close> in the callback.
\<close>

definition example_env :: "HRESULT \<Rightarrow> string \<Rightarrow> Env" where
  "example_env hr msg =
     \<lparr>env_createArchiveObject = (\<lambda>format. None),
      env_QueryInterface = S_OK,
      env_SetProperties = (\<lambda>names values. S_OK),
      env_Create = (\<lambda>path. if path = ''a.7z'' then Some ERROR_FILE_EXISTS else None),
      env_openOldArc = (\<lambda>path. None),
      env_UpdateItems = (\<lambda>out_arc out_stream n cb. (hr, cb\<lparr>getErrorMessage := msg\<rparr>)),
      env_renameFile = (\<lambda>old new. True)\<rparr>"

definition example_callback :: CompressCallback where
  "example_callback = \<lparr>itemsCount = 3, getErrorMessage = []\<rparr>"

section \<open>The tables of the specification\<close>

text \<open>
  The method-validity table as the specification prints it, row by row: a method and
  the formats it is valid for. A method with no row is always valid.
\<close>

definition method_validity_table :: "(BitCompressionMethod \<times> FormatValue list) list" where
  "method_validity_table =
     [(Copy, [Fmt_SevenZip, Fmt_Zip, Fmt_Tar, Fmt_Wim]),
      (Ppmd, [Fmt_SevenZip, Fmt_Zip]),
      (Lzma, [Fmt_SevenZip, Fmt_Zip]),
      (Lzma2, [Fmt_SevenZip, Fmt_Xz]),
      (BZip2, [Fmt_SevenZip, Fmt_BZip2, Fmt_Zip]),
      (Deflate, [Fmt_GZip, Fmt_Zip]),
      (Deflate64, [Fmt_Zip])]"

definition table_allows :: "BitCompressionMethod \<Rightarrow> FormatValue \<Rightarrow> bool" where
  "table_allows method v =
     (case map_of method_validity_table method of
        None \<Rightarrow> True
      | Some formats \<Rightarrow> v \<in> set formats)"

text \<open>
  The dictionary-size bounds table of the specification, in bytes, on the size read
  as a natural number.
\<close>

fun dictionary_bounds_table :: "BitCompressionMethod \<Rightarrow> nat \<Rightarrow> bool" where
  "dictionary_bounds_table Lzma n = (n \<le> 1610612736)"
| "dictionary_bounds_table Lzma2 n = (n \<le> 1610612736)"
| "dictionary_bounds_table Ppmd n = (n \<le> 1073741824)"
| "dictionary_bounds_table BZip2 n = (n \<le> 921600)"
| "dictionary_bounds_table Deflate64 n = (n = 65536)"
| "dictionary_bounds_table Deflate n = (n = 32768)"
| "dictionary_bounds_table Copy n = True"
| "dictionary_bounds_table (OtherMethod v) n = True"

section \<open>Properties of the validators\<close>

lemma unat_eq_65536: "(d = (65536 :: 32 word)) = (unat d = 65536)"
  by (simp add: word_unat_eq_iff)

lemma unat_eq_32768: "(d = (32768 :: 32 word)) = (unat d = 32768)"
  by (simp add: word_unat_eq_iff)

text \<open>
  C1. For every format and method, \<open>isValidCompressionMethod\<close> is true exactly when
  the pair is in the specification's method-validity table (Copy: 7z, Zip, Tar, Wim;
  PPMd and LZMA: 7z, Zip; LZMA2: 7z, Xz; BZip2: 7z, BZip2, Zip; Deflate: GZip, Zip;
  Deflate64: Zip), and it is true for every method the table does not list.
\<close>

theorem isValidCompressionMethod_table:
  "isValidCompressionMethod format m = table_allows m (mValue format) \<and>
   map_of method_validity_table (OtherMethod v) = None \<and>
   isValidCompressionMethod format (OtherMethod v)"
  by (cases m) (auto simp: table_allows_def method_validity_table_def)

theorem isValidCompressionMethod_table_witness:
  "isValidCompressionMethod \<lparr>mValue = Fmt_Xz, mFeatures = {}, mDefaultMethod = Lzma2\<rparr> Lzma2 \<and>
   \<not> isValidCompressionMethod \<lparr>mValue = Fmt_Xz, mFeatures = {}, mDefaultMethod = Lzma2\<rparr> Deflate64 \<and>
   table_allows Lzma2 Fmt_Xz \<and> \<not> table_allows Deflate64 Fmt_Xz"
  using isValidCompressionMethod_table
    [of "\<lparr>mValue = Fmt_Xz, mFeatures = {}, mDefaultMethod = Lzma2\<rparr>" Lzma2 0]
    isValidCompressionMethod_table
    [of "\<lparr>mValue = Fmt_Xz, mFeatures = {}, mDefaultMethod = Lzma2\<rparr>" Deflate64 0]
  by simp

text \<open>
  C2. For every method and size, \<open>isValidDictionarySize\<close> is true exactly under the
  bounds of the specification's table: LZMA and LZMA2 at most 1,610,612,736 bytes (so
  1,610,612,737 is rejected), PPMd at most 1,073,741,824, BZip2 at most 921,600,
  Deflate64 exactly 65,536, Deflate exactly 32,768, and every size for any other
  method.
\<close>

theorem isValidDictionarySize_table:
  "isValidDictionarySize m dictionary_size =
     dictionary_bounds_table m (unat dictionary_size) \<and>
   isValidDictionarySize Lzma2 1610612736 \<and>
   \<not> isValidDictionarySize Lzma2 1610612737 \<and>
   \<not> isValidDictionarySize Lzma 1610612737"
  by (cases m) (simp_all add: word_le_nat_alt unat_eq_65536 unat_eq_32768)

theorem isValidDictionarySize_table_witness:
  "isValidDictionarySize BZip2 921600 \<and> \<not> isValidDictionarySize BZip2 921601 \<and>
   \<not> isValidDictionarySize Deflate 0 \<and> isValidDictionarySize Deflate 32768"
  using isValidDictionarySize_table [of BZip2 921600] isValidDictionarySize_table [of BZip2 921601]
    isValidDictionarySize_table [of Deflate 0] isValidDictionarySize_table [of Deflate 32768]
  by simp


section \<open>Properties of the setters\<close>

lemmas setter_defs =
  setPassword_def setPassword2_def setCompressionLevel_def setCompressionMethod_def
  setDictionarySize_def setSolidMode_def setUpdateMode_def setVolumeSize_def

lemmas example_defs =
  example_7z_def example_gzip_def example_env_def example_callback_def
  BitArchiveCreator_ctor_def defaultMethod_def hasFeature_def

text \<open>
  C3 as stated fails. On a freshly constructed object whose current method is
  Deflate, \<open>setDictionarySize( 0 )\<close> throws: \<open>isValidDictionarySize\<close> accepts for
  Deflate only the size 32768, and the setter makes no exception for 0.
\<close>

theorem setDictionarySize_zero_Deflate_throws:
  "fst (setDictionarySize 0 (BitArchiveCreator_ctor [] 5 example_gzip)) =
     Some (BitException ''Invalid dictionary size for the chosen compression method'')"
  by (simp add: setDictionarySize_def example_defs)

text \<open>
  C3, amended. \<open>setDictionarySize\<close> with the default value 0 succeeds exactly when
  the current compression method is neither Deflate nor Deflate64; for these two
  methods, whose dictionary size is fixed, it throws the exception for an invalid
  dictionary size and leaves the object as it was.
\<close>

theorem setDictionarySize_zero:
  "(fst (setDictionarySize 0 s) = None) =
     (mCompressionMethod s \<noteq> Deflate \<and> mCompressionMethod s \<noteq> Deflate64) \<and>
   (mCompressionMethod s = Deflate \<or> mCompressionMethod s = Deflate64 \<longrightarrow>
      setDictionarySize 0 s =
        (Some (BitException ''Invalid dictionary size for the chosen compression method''), s))"
  by (cases "mCompressionMethod s") (simp_all add: setDictionarySize_def)

theorem setDictionarySize_zero_witness:
  "mCompressionMethod (BitArchiveCreator_ctor [] 5 example_7z) = Lzma \<and>
   setDictionarySize 0 (snd (setDictionarySize 65536 (BitArchiveCreator_ctor [] 5 example_7z))) =
     (None, BitArchiveCreator_ctor [] 5 example_7z) \<and>
   mCompressionMethod (BitArchiveCreator_ctor [] 5 example_gzip) = Deflate \<and>
   setDictionarySize 0 (BitArchiveCreator_ctor [] 5 example_gzip) =
     (Some (BitException ''Invalid dictionary size for the chosen compression method''),
      BitArchiveCreator_ctor [] 5 example_gzip)"
proof -
  have g: "mCompressionMethod (BitArchiveCreator_ctor [] 5 example_gzip) = Deflate"
    by (simp add: example_defs)
  have z: "setDictionarySize 0
             (snd (setDictionarySize 65536 (BitArchiveCreator_ctor [] 5 example_7z))) =
           (None, BitArchiveCreator_ctor [] 5 example_7z)"
    by (simp add: setDictionarySize_def example_defs)
  from setDictionarySize_zero [of "BitArchiveCreator_ctor [] 5 example_gzip"]
    setDictionarySize_zero
      [of "snd (setDictionarySize 65536 (BitArchiveCreator_ctor [] 5 example_7z))"]
    g z
  show ?thesis by (simp add: example_defs)
qed

text \<open>
  C4. For every settings object and every argument, when \<open>setCompressionMethod\<close> or
  \<open>setDictionarySize\<close> throws, the object is left exactly as it was before the call:
  every field, the stored method and the stored dictionary size among them.
\<close>

theorem rejected_setter_changes_nothing:
  "(fst (setCompressionMethod m s) \<noteq> None \<longrightarrow> snd (setCompressionMethod m s) = s) \<and>
   (fst (setDictionarySize d s) \<noteq> None \<longrightarrow> snd (setDictionarySize d s) = s)"
  by (simp add: setCompressionMethod_def setDictionarySize_def)

theorem rejected_setter_changes_nothing_witness:
  "fst (setCompressionMethod Deflate64
          (snd (setDictionarySize 4096 (BitArchiveCreator_ctor [] 5 example_7z)))) \<noteq> None \<and>
   mCompressionMethod (snd (setCompressionMethod Deflate64
          (snd (setDictionarySize 4096 (BitArchiveCreator_ctor [] 5 example_7z))))) = Lzma \<and>
   fst (setDictionarySize 1610612737
          (snd (setDictionarySize 4096 (BitArchiveCreator_ctor [] 5 example_7z)))) \<noteq> None \<and>
   mDictionarySize (snd (setDictionarySize 1610612737
          (snd (setDictionarySize 4096 (BitArchiveCreator_ctor [] 5 example_7z))))) = 4096"
  using rejected_setter_changes_nothing
    [of Deflate64 "snd (setDictionarySize 4096 (BitArchiveCreator_ctor [] 5 example_7z))"
        1610612737]
  by (simp add: setCompressionMethod_def setDictionarySize_def example_defs)

lemma call_step_format: "mFormat (call_step c s) = mFormat s"
  by (cases c) (simp_all add: setter_defs)

lemma run_format: "mFormat (run s cs) = mFormat s"
  by (induction cs arbitrary: s) (simp_all add: call_step_format)

lemma call_step_fixed_method:
  assumes "\<not> hasFeature (mFormat s) MULTIPLE_METHODS"
  shows "mCompressionMethod (call_step c s) = mCompressionMethod s"
  using assms by (cases c) (simp_all add: setter_defs)

lemma run_fixed_method:
  "\<not> hasFeature (mFormat s) MULTIPLE_METHODS \<Longrightarrow>
   mCompressionMethod (run s cs) = mCompressionMethod s"
proof (induction cs arbitrary: s)
  case Nil
  show ?case by simp
next
  case (Cons c cs)
  from Cons.prems have "\<not> hasFeature (mFormat (call_step c s)) MULTIPLE_METHODS"
    by (simp add: call_step_format)
  then have "mCompressionMethod (run (call_step c s) cs) = mCompressionMethod (call_step c s)"
    by (rule Cons.IH)
  with Cons.prems show ?case
    by (simp add: call_step_fixed_method)
qed

text \<open>
  C5. For every format without the multiple-methods feature and every method valid
  for it: on an object constructed for that format, after any sequence of setter
  calls, \<open>setCompressionMethod\<close> with that method throws nothing and changes nothing,
  and the stored method is the format's default method.
\<close>

theorem setCompressionMethod_fixed_method_noop:
  assumes "\<not> hasFeature format MULTIPLE_METHODS"
    and "isValidCompressionMethod format m"
  shows "setCompressionMethod m (run (BitArchiveCreator_ctor pw normal format) cs) =
           (None, run (BitArchiveCreator_ctor pw normal format) cs) \<and>
         mCompressionMethod (run (BitArchiveCreator_ctor pw normal format) cs) =
           defaultMethod format"
proof -
  let ?s0 = "BitArchiveCreator_ctor pw normal format"
  have f0: "mFormat ?s0 = format"
    by (simp add: BitArchiveCreator_ctor_def)
  have f: "mFormat (run ?s0 cs) = format"
    by (simp add: run_format f0)
  have "mCompressionMethod (run ?s0 cs) = mCompressionMethod ?s0"
    using assms(1) by (simp add: run_fixed_method f0)
  then have m: "mCompressionMethod (run ?s0 cs) = defaultMethod format"
    by (simp add: BitArchiveCreator_ctor_def)
  have "setCompressionMethod m (run ?s0 cs) = (None, run ?s0 cs)"
    using assms by (simp add: setCompressionMethod_def f)
  with m show ?thesis by simp
qed

theorem setCompressionMethod_fixed_method_noop_witness:
  "\<not> hasFeature example_gzip MULTIPLE_METHODS \<and>
   isValidCompressionMethod example_gzip (OtherMethod 7) \<and>
   fst (setCompressionMethod (OtherMethod 7)
          (run (BitArchiveCreator_ctor [] 5 example_gzip)
             [SetCompressionLevel 9, SetCompressionMethod Deflate, SetUpdateMode True])) = None \<and>
   mCompressionMethod (snd (setCompressionMethod (OtherMethod 7)
          (run (BitArchiveCreator_ctor [] 5 example_gzip)
             [SetCompressionLevel 9, SetCompressionMethod Deflate, SetUpdateMode True]))) = Deflate"
proof -
  have h1: "\<not> hasFeature example_gzip MULTIPLE_METHODS"
    by (simp add: example_defs)
  have h2: "isValidCompressionMethod example_gzip (OtherMethod 7)"
    by simp
  from setCompressionMethod_fixed_method_noop [OF h1 h2, of "[]" 5
      "[SetCompressionLevel 9, SetCompressionMethod Deflate, SetUpdateMode True]"] h1 h2
  show ?thesis by (simp add: example_defs)
qed

text \<open>
  C9. For every previous dictionary size and every level, \<open>setCompressionLevel\<close>
  stores the level and resets the stored dictionary size to the default 0.
\<close>

theorem setCompressionLevel_resets_dictionary:
  "mCompressionLevel (setCompressionLevel l s) = l \<and>
   mDictionarySize (setCompressionLevel l s) = 0 \<and>
   setCompressionLevel l s = s\<lparr>mCompressionLevel := l, mDictionarySize := 0\<rparr>"
  by (simp add: setCompressionLevel_def)

theorem setCompressionLevel_resets_dictionary_witness:
  "mDictionarySize (run (BitArchiveCreator_ctor [] 5 example_7z) [SetDictionarySize 4096]) = 4096 \<and>
   mDictionarySize (setCompressionLevel 9
      (run (BitArchiveCreator_ctor [] 5 example_7z) [SetDictionarySize 4096])) = 0 \<and>
   mCompressionLevel (setCompressionLevel 9
      (run (BitArchiveCreator_ctor [] 5 example_7z) [SetDictionarySize 4096])) = 9"
  using setCompressionLevel_resets_dictionary
    [of 9 "run (BitArchiveCreator_ctor [] 5 example_7z) [SetDictionarySize 4096]"]
  by (simp add: setDictionarySize_def example_defs)

text \<open>
  C10. When \<open>setCompressionMethod\<close> applies the new method (the method is valid for
  the format and the format has the multiple-methods feature), it also resets the
  stored dictionary size to the default 0; when the method is valid and the format
  lacks the feature, the call changes nothing, so the dictionary size stays.
\<close>

theorem setCompressionMethod_resets_dictionary:
  assumes "isValidCompressionMethod (mFormat s) m"
  shows "(hasFeature (mFormat s) MULTIPLE_METHODS \<longrightarrow>
            setCompressionMethod m s = (None, s\<lparr>mCompressionMethod := m, mDictionarySize := 0\<rparr>) \<and>
            mCompressionMethod (snd (setCompressionMethod m s)) = m \<and>
            mDictionarySize (snd (setCompressionMethod m s)) = 0) \<and>
         (\<not> hasFeature (mFormat s) MULTIPLE_METHODS \<longrightarrow>
            setCompressionMethod m s = (None, s) \<and>
            mDictionarySize (snd (setCompressionMethod m s)) = mDictionarySize s)"
  using assms by (simp add: setCompressionMethod_def)

theorem setCompressionMethod_resets_dictionary_witness:
  "isValidCompressionMethod example_7z Ppmd \<and> hasFeature example_7z MULTIPLE_METHODS \<and>
   mDictionarySize (run (BitArchiveCreator_ctor [] 5 example_7z) [SetDictionarySize 4096]) = 4096 \<and>
   mDictionarySize (snd (setCompressionMethod Ppmd
      (run (BitArchiveCreator_ctor [] 5 example_7z) [SetDictionarySize 4096]))) = 0 \<and>
   mCompressionMethod (snd (setCompressionMethod Ppmd
      (run (BitArchiveCreator_ctor [] 5 example_7z) [SetDictionarySize 4096]))) = Ppmd"
proof -
  let ?s = "run (BitArchiveCreator_ctor [] 5 example_7z) [SetDictionarySize 4096]"
  have f: "mFormat ?s = example_7z"
    by (simp only: run_format) (simp add: BitArchiveCreator_ctor_def)
  have h: "isValidCompressionMethod (mFormat ?s) Ppmd"
    by (simp only: f) (simp add: example_7z_def)
  have m: "hasFeature (mFormat ?s) MULTIPLE_METHODS"
    by (simp only: f) (simp add: example_defs)
  have d: "mDictionarySize ?s = 4096"
    by (simp add: setDictionarySize_def example_defs)
  from setCompressionMethod_resets_dictionary [OF h] m h d f show ?thesis
    by simp
qed


section \<open>The property bag on two examples\<close>

text \<open>
  The names and values that \<open>setArchiveProperties\<close> builds, computed for a 7z archive
  with LZMA2 and a 64 KiB dictionary, and for a format that is not 7z with PPMd and a
  1 GiB memory size.
\<close>

lemma archiveProperties_7z_example:
  "archiveProperties (run (BitArchiveCreator_ctor [] 5 example_7z)
      [SetCompressionMethod Lzma2, SetDictionarySize 65536, SetSolidMode True,
       SetPassword2 ''pw'' True]) =
   ([''he'', ''x'', ''0'', ''s'', ''0d''],
    [PropBool True, PropUInt32 5, PropString ''LZMA2'', PropBool True,
     PropString ''65536b''])"
  by (simp add: archiveProperties_def Let_def setter_defs example_defs to_wstring.simps)

lemma archiveProperties_zip_example:
  "archiveProperties (run (BitArchiveCreator_ctor [] 5 (example_7z\<lparr>mValue := Fmt_Zip\<rparr>))
      [SetCompressionMethod Ppmd, SetDictionarySize 1073741824]) =
   ([''x'', ''m'', ''s'', ''mem''],
    [PropUInt32 5, PropString ''PPMd'', PropBool False, PropString ''1073741824b''])"
  by (simp add: archiveProperties_def Let_def setter_defs example_defs to_wstring.simps)

section \<open>Header encryption needs a password\<close>

lemma call_step_crypt:
  assumes "mCryptHeaders s \<longrightarrow> mPassword s \<noteq> []"
  shows "mCryptHeaders (call_step c s) \<longrightarrow> mPassword (call_step c s) \<noteq> []"
  using assms by (cases c) (auto simp add: setter_defs)

lemma run_crypt:
  "(mCryptHeaders s \<longrightarrow> mPassword s \<noteq> []) \<Longrightarrow>
   (mCryptHeaders (run s cs) \<longrightarrow> mPassword (run s cs) \<noteq> [])"
proof (induction cs arbitrary: s)
  case Nil
  then show ?case by simp
next
  case (Cons c cs)
  have "mCryptHeaders (call_step c s) \<longrightarrow> mPassword (call_step c s) \<noteq> []"
    using Cons.prems by (rule call_step_crypt)
  then show ?case using Cons.IH by simp
qed

lemma he_entry:
  "(''he'' \<in> set (fst (archiveProperties s))) =
     (mCryptHeaders s \<and> hasFeature (mFormat s) HEADER_ENCRYPTION)"
  by (simp add: archiveProperties_def Let_def)

text \<open>
  C6. On an object constructed by the constructor, after every sequence of setter
  calls, \<open>mCryptHeaders\<close> is true only if the stored password is not empty.
  \<open>setPassword\<close> with an empty password makes \<open>mCryptHeaders\<close> false even when true
  is requested, and then the property names built by \<open>setArchiveProperties\<close> do not
  contain \<open>he\<close>, whatever the format supports.
\<close>

theorem cryptHeaders_needs_password:
  "(mCryptHeaders (run (BitArchiveCreator_ctor pw normal format) cs) \<longrightarrow>
      mPassword (run (BitArchiveCreator_ctor pw normal format) cs) \<noteq> []) \<and>
   (mPassword (run (BitArchiveCreator_ctor pw normal format) cs) = [] \<longrightarrow>
      ''he'' \<notin> set (fst (archiveProperties (run (BitArchiveCreator_ctor pw normal format) cs)))) \<and>
   \<not> mCryptHeaders (setPassword2 [] crypt_headers s) \<and>
   \<not> mCryptHeaders (setPassword [] s) \<and>
   ''he'' \<notin> set (fst (archiveProperties (setPassword2 [] crypt_headers s))) \<and>
   ''he'' \<notin> set (fst (archiveProperties (setPassword [] s)))"
proof -
  let ?s0 = "BitArchiveCreator_ctor pw normal format"
  have "mCryptHeaders ?s0 \<longrightarrow> mPassword ?s0 \<noteq> []"
    by (simp add: BitArchiveCreator_ctor_def)
  then have inv: "mCryptHeaders (run ?s0 cs) \<longrightarrow> mPassword (run ?s0 cs) \<noteq> []"
    by (rule run_crypt)
  then have bag: "mPassword (run ?s0 cs) = [] \<longrightarrow>
      ''he'' \<notin> set (fst (archiveProperties (run ?s0 cs)))"
    by (auto simp add: he_entry)
  have a: "\<not> mCryptHeaders (setPassword2 [] crypt_headers s)"
    by (simp add: setPassword2_def)
  have b: "\<not> mCryptHeaders (setPassword [] s)"
    by (simp add: setPassword_def setPassword2_def)
  from a b have c: "''he'' \<notin> set (fst (archiveProperties (setPassword2 [] crypt_headers s)))"
    and d: "''he'' \<notin> set (fst (archiveProperties (setPassword [] s)))"
    by (simp_all add: he_entry)
  from inv bag a b c d show ?thesis by blast
qed

theorem cryptHeaders_needs_password_witness:
  "hasFeature example_7z HEADER_ENCRYPTION \<and>
   mCryptHeaders (run (BitArchiveCreator_ctor [] 5 example_7z) [SetPassword2 ''pw'' True]) \<and>
   mPassword (run (BitArchiveCreator_ctor [] 5 example_7z) [SetPassword2 ''pw'' True]) = ''pw'' \<and>
   fst (archiveProperties
          (run (BitArchiveCreator_ctor [] 5 example_7z) [SetPassword2 ''pw'' True])) =
     [''he'', ''x'', ''s''] \<and>
   mPassword (run (BitArchiveCreator_ctor [] 5 example_7z)
                [SetPassword2 ''pw'' True, SetPassword2 [] True]) = [] \<and>
   fst (archiveProperties
          (run (BitArchiveCreator_ctor [] 5 example_7z)
             [SetPassword2 ''pw'' True, SetPassword2 [] True])) = [''x'', ''s'']"
  using cryptHeaders_needs_password [of "[]" 5 example_7z "[SetPassword2 ''pw'' True]"]
    cryptHeaders_needs_password
      [of "[]" 5 example_7z "[SetPassword2 ''pw'' True, SetPassword2 [] True]"]
  by (simp add: archiveProperties_def Let_def setPassword2_def example_defs)

section \<open>The engine's result code and the commit\<close>

lemma hresult_distinct: "E_NOTIMPL \<noteq> S_OK" "E_FAIL \<noteq> S_OK" "E_NOTIMPL \<noteq> E_FAIL"
  by (simp_all add: E_NOTIMPL_def S_OK_def E_FAIL_def)

text \<open>
  C7. For every result code that \<open>UpdateItems\<close> returns, \<open>compressOut\<close> maps it so:
  \<open>E_NOTIMPL\<close> throws the exception for an unsupported operation; \<open>E_FAIL\<close> with an
  empty callback message throws the exception with the generic message; any other
  code that is not \<open>S_OK\<close> throws an exception carrying the callback's message; and
  \<open>S_OK\<close> throws nothing and is returned. The engine is called exactly once.
\<close>

theorem compressOut_result_mapping:
  assumes "env_UpdateItems env out_arc out_stream (itemsCount cb) cb = (result, cb')"
  shows "(result = E_NOTIMPL \<longrightarrow>
            fst (compressOut env out_arc out_stream cb) =
              Inl (BitException ''Unsupported operation!'')) \<and>
         (result = E_FAIL \<and> getErrorMessage cb' = [] \<longrightarrow>
            fst (compressOut env out_arc out_stream cb) =
              Inl (BitException ''Failed operation (unkwown error)!'')) \<and>
         (result \<noteq> S_OK \<and> result \<noteq> E_NOTIMPL \<and>
          \<not> (result = E_FAIL \<and> getErrorMessage cb' = []) \<longrightarrow>
            fst (compressOut env out_arc out_stream cb) =
              Inl (BitException (getErrorMessage cb'))) \<and>
         (result = S_OK \<longrightarrow> fst (compressOut env out_arc out_stream cb) = Inr S_OK) \<and>
         snd (compressOut env out_arc out_stream cb) =
           [UpdateItemsCall out_arc out_stream (itemsCount cb)]"
  using assms hresult_distinct by (simp add: compressOut_def)

theorem compressOut_result_mapping_witness:
  "fst (compressOut (example_env E_NOTIMPL ''disk full'') (NewArchive Fmt_SevenZip)
          (COutFileStream ''b.7z'') example_callback) =
     Inl (BitException ''Unsupported operation!'') \<and>
   fst (compressOut (example_env E_FAIL []) (NewArchive Fmt_SevenZip)
          (COutFileStream ''b.7z'') example_callback) =
     Inl (BitException ''Failed operation (unkwown error)!'') \<and>
   fst (compressOut (example_env E_FAIL ''disk full'') (NewArchive Fmt_SevenZip)
          (COutFileStream ''b.7z'') example_callback) =
     Inl (BitException ''disk full'') \<and>
   fst (compressOut (example_env 1 []) (NewArchive Fmt_SevenZip)
          (COutFileStream ''b.7z'') example_callback) =
     Inl (BitException []) \<and>
   fst (compressOut (example_env S_OK []) (NewArchive Fmt_SevenZip)
          (COutFileStream ''b.7z'') example_callback) = Inr S_OK"
proof -
  have u: "env_UpdateItems (example_env hr msg) (NewArchive Fmt_SevenZip)
             (COutFileStream ''b.7z'') (itemsCount example_callback) example_callback =
           (hr, example_callback\<lparr>getErrorMessage := msg\<rparr>)" for hr msg
    by (simp add: example_env_def)
  have n: "(1 :: 32 word) \<noteq> S_OK" "(1 :: 32 word) \<noteq> E_NOTIMPL" "(1 :: 32 word) \<noteq> E_FAIL"
    by (simp_all add: S_OK_def E_NOTIMPL_def E_FAIL_def)
  from compressOut_result_mapping [OF u [of E_NOTIMPL "''disk full''"]]
    compressOut_result_mapping [OF u [of E_FAIL "[]"]]
    compressOut_result_mapping [OF u [of E_FAIL "''disk full''"]]
    compressOut_result_mapping [OF u [of 1 "[]"]]
    compressOut_result_mapping [OF u [of S_OK "[]"]]
    n hresult_distinct
  show ?thesis by simp
qed

lemma then_do_Inl: "then_do (Inl e, t) f = (Inl e, t)"
  by (simp add: then_do_def)

lemma then_do_Inr: "then_do (Inr a, t) f = (fst (f a), t @ snd (f a))"
  by (simp add: then_do_def split: prod.splits)

lemma setArchiveProperties_events:
  "filter is_UpdateItemsCall (snd (setArchiveProperties env s)) = [] \<and>
   CreateFileCall p \<notin> set (snd (setArchiveProperties env s))"
  by (simp add: setArchiveProperties_def split: prod.splits)

lemma initOutArchive_events:
  "filter is_UpdateItemsCall (snd (initOutArchive env s)) = [] \<and>
   CreateFileCall p \<notin> set (snd (initOutArchive env s))"
proof (cases "setArchiveProperties env s")
  case (Pair r t)
  with setArchiveProperties_events [of env s p] show ?thesis
    by (cases r; cases "env_createArchiveObject env (mValue (mFormat s))")
      (simp_all add: initOutArchive_def then_do_Inr then_do_Inl)
qed

lemma settings_consistent_events: "snd (settings_consistent s) = []"
  by (simp add: settings_consistent_def)

lemma initOutFileStream_exists:
  assumes "mVolumeSize s = 0" and "env_Create env out_archive = Some ERROR_FILE_EXISTS"
    and "\<not> mUpdateMode s"
  shows "initOutFileStream env s out_archive new_arc =
     (Inl (BitException (''Cannot update existing archive file '' @ quoted out_archive)),
      [CreateFileCall out_archive])"
  using assms by (simp add: initOutFileStream_def)

text \<open>
  C8. For every commit with \<open>mVolumeSize = 0\<close> in which creating the output file
  fails because the destination exists (\<open>ERROR_FILE_EXISTS\<close>) and \<open>mUpdateMode\<close> is
  false: \<open>initOutFileStream\<close> throws the exception that the existing archive cannot
  be updated, having done nothing but the attempt to create the file; the commit
  fails; the engine's \<open>UpdateItems\<close> is never called in it; and a commit that got as
  far as creating the file fails with that exception.
\<close>

theorem commit_existing_without_update_mode:
  assumes "mVolumeSize s = 0" and "env_Create env out_archive = Some ERROR_FILE_EXISTS"
    and "\<not> mUpdateMode s"
  shows "initOutFileStream env s out_archive new_arc =
           (Inl (BitException (''Cannot update existing archive file '' @ quoted out_archive)),
            [CreateFileCall out_archive]) \<and>
         isl (fst (commit env s out_archive cb)) \<and>
         filter is_UpdateItemsCall (snd (commit env s out_archive cb)) = [] \<and>
         (CreateFileCall out_archive \<in> set (snd (commit env s out_archive cb)) \<longrightarrow>
            fst (commit env s out_archive cb) =
              Inl (BitException (''Cannot update existing archive file '' @ quoted out_archive)))"
proof -
  note fs = initOutFileStream_exists [OF assms]
  obtain r1 where r1: "settings_consistent s = (r1, [])"
    using settings_consistent_events [of s] by (cases "settings_consistent s") simp
  obtain r2 t2 where r2: "initOutArchive env s = (r2, t2)"
    by (cases "initOutArchive env s")
  have t2: "filter is_UpdateItemsCall t2 = []" "CreateFileCall out_archive \<notin> set t2"
    using initOutArchive_events [of env s out_archive] r2 by simp_all
  have ?thesis if "isl r1"
    using that r1 fs by (cases r1) (simp_all add: commit_def then_do_Inl)
  moreover have ?thesis if "\<not> isl r1" "isl r2"
    using that r1 r2 t2 fs
    by (cases r1; cases r2) (simp_all add: commit_def then_do_Inl then_do_Inr)
  moreover have ?thesis if "\<not> isl r1" "\<not> isl r2"
    using that r1 r2 t2 fs
    by (cases r1; cases r2) (simp_all add: commit_def then_do_Inl then_do_Inr)
  ultimately show ?thesis by blast
qed

theorem commit_existing_without_update_mode_witness:
  "mVolumeSize (BitArchiveCreator_ctor [] 5 example_7z) = 0 \<and>
   env_Create (example_env S_OK []) ''a.7z'' = Some ERROR_FILE_EXISTS \<and>
   \<not> mUpdateMode (BitArchiveCreator_ctor [] 5 example_7z) \<and>
   commit (example_env S_OK []) (BitArchiveCreator_ctor [] 5 example_7z) ''a.7z''
       example_callback =
     (Inl (BitException (''Cannot update existing archive file '' @ quoted ''a.7z'')),
      [CreateArchiveObject Fmt_SevenZip, QueryISetProperties,
       SetPropertiesCall [''x'', ''s''] [PropUInt32 5, PropBool False],
       CreateFileCall ''a.7z''])"
proof -
  let ?s = "BitArchiveCreator_ctor [] 5 example_7z"
  let ?env = "example_env S_OK []"
  have h1: "mVolumeSize ?s = 0"
    by (simp add: BitArchiveCreator_ctor_def)
  have h2: "env_Create ?env ''a.7z'' = Some ERROR_FILE_EXISTS"
    by (simp add: example_env_def)
  have h3: "\<not> mUpdateMode ?s"
    by (simp add: BitArchiveCreator_ctor_def)
  have t: "snd (commit ?env ?s ''a.7z'' example_callback) =
      [CreateArchiveObject Fmt_SevenZip, QueryISetProperties,
       SetPropertiesCall [''x'', ''s''] [PropUInt32 5, PropBool False],
       CreateFileCall ''a.7z'']"
    by (simp add: commit_def then_do_def settings_consistent_def initOutArchive_def
        setArchiveProperties_def archiveProperties_def Let_def initOutFileStream_def
        example_defs)
  from commit_existing_without_update_mode [OF h1 h2 h3, of "NewArchive Fmt_SevenZip"
      example_callback] t h1 h2 h3
  show ?thesis by (cases "commit ?env ?s ''a.7z'' example_callback") simp
qed

end
